theory Spec2Isabelle
  imports Complex_Main
begin

section \<open>JavaScript values and strings\<close>

text \<open>
  The MPD client (\<^verbatim>\<open>mpd-client.ts\<close>) is embedded function by function. A JavaScript string
  is a \<^typ>\<open>string\<close>; one \<^typ>\<open>char\<close> stands for one UTF-16 code unit below 256, so
  the model covers the Latin-1 range. A JavaScript number is a \<open>jsnum\<close>: finite numbers carry
  their exact decimal value as a rational (the rounding to an IEEE double and the sign
  of zero are left out), beside \<open>NaN\<close> and the two infinities.
\<close>

datatype jsnum = NaN | Fin rat | PosInf | NegInf

text \<open>
  A field of a message holds a string, a number, the value \<open>undefined\<close>, or a
  \<^verbatim>\<open>Date\<close>. \<open>DateOf v\<close> is the object that \<^verbatim>\<open>new Date(v)\<close> builds; how the engine
  reads the date text is left uninterpreted.
\<close>

datatype jsval = Undefined | Str string | Num jsnum | DateOf "string option"

datatype error = Error string | TypeError | ConnectError

type_synonym MpdMessage = "string \<rightharpoonup> jsval"

text \<open>Truthiness of a property read such as \<^verbatim>\<open>a.isDir\<close>; an absent property reads \<open>undefined\<close>.\<close>

fun truthy :: "jsval option \<Rightarrow> bool" where
  "truthy None = False"
| "truthy (Some Undefined) = False"
| "truthy (Some (Str s)) = (s \<noteq> [])"
| "truthy (Some (Num NaN)) = False"
| "truthy (Some (Num (Fin q))) = (q \<noteq> 0)"
| "truthy (Some (Num PosInf)) = True"
| "truthy (Some (Num NegInf)) = True"
| "truthy (Some (DateOf v)) = True"

text \<open>A string or \<open>undefined\<close>, as an element read from an array of strings.\<close>

fun jsOfOpt :: "string option \<Rightarrow> jsval" where
  "jsOfOpt None = Undefined"
| "jsOfOpt (Some s) = Str s"

fun nthOpt :: "'a list \<Rightarrow> nat \<Rightarrow> 'a option" where
  "nthOpt [] n = None"
| "nthOpt (x # xs) 0 = Some x"
| "nthOpt (x # xs) (Suc n) = nthOpt xs n"

subsection \<open>String methods\<close>

definition startsWith :: "string \<Rightarrow> string \<Rightarrow> bool" where
  "startsWith s p = (take (length p) s = p)"

text \<open>\<^verbatim>\<open>s.indexOf(c)\<close> for a one-character needle: the first position, or \<open>-1\<close>.\<close>

fun indexOf :: "string \<Rightarrow> char \<Rightarrow> int" where
  "indexOf [] c = -1"
| "indexOf (x # xs) c =
     (if x = c then 0 else (let i = indexOf xs c in if i < 0 then -1 else i + 1))"

text \<open>\<^verbatim>\<open>s.substring(a, b)\<close>: both ends are clamped to the string and swapped when out of order.\<close>

definition substring :: "string \<Rightarrow> int \<Rightarrow> int \<Rightarrow> string" where
  "substring s a b =
     (let n = int (length s);
          a' = min (max a 0) n;
          b' = min (max b 0) n;
          lo = nat (min a' b');
          hi = nat (max a' b')
      in take (hi - lo) (drop lo s))"

text \<open>\<^verbatim>\<open>s.substring(a)\<close>, the end defaulting to the length.\<close>

definition substringFrom :: "string \<Rightarrow> int \<Rightarrow> string" where
  "substringFrom s a = substring s a (int (length s))"

text \<open>
  \<^verbatim>\<open>toLowerCase\<close> on the Latin-1 range: \<open>A\<close>--\<open>Z\<close> and the accented capitals
  \<open>0xC0\<close>--\<open>0xDE\<close> (but not the multiplication sign \<open>0xD7\<close>) move up by 32.
\<close>

definition lowerChar :: "char \<Rightarrow> char" where
  "lowerChar c =
     (let n = (of_char c :: nat)
      in if 65 \<le> n \<and> n \<le> 90 then char_of (n + 32)
         else if 192 \<le> n \<and> n \<le> 222 then (if n = 215 then c else char_of (n + 32))
         else c)"

definition toLowerCase :: "string \<Rightarrow> string" where
  "toLowerCase s = map lowerChar s"

text \<open>
  White space as the regular expression class \<^verbatim>\<open>\s\<close> and the number parsers see it:
  tab, line feed, vertical tab, form feed, carriage return, space, no-break space.
\<close>

definition isWhiteSpace :: "char \<Rightarrow> bool" where
  "isWhiteSpace c =
     (c \<in> set [CHR 0x09, CHR 0x0A, CHR 0x0B, CHR 0x0C, CHR 0x0D, CHR 0x20, CHR 0xA0])"

text \<open>
  \<^verbatim>\<open>s.split(/:\s/)\<close>: the string is cut at every match of a colon followed by a white
  space character, scanning from the left; the pieces between the matches are returned,
  so the result of splitting the empty string is the one piece \<open>''''\<close>. The first
  argument collects the current piece in reverse.
\<close>

fun splitAcc :: "string \<Rightarrow> string \<Rightarrow> string list" where
  "splitAcc cur [] = [rev cur]"
| "splitAcc cur [c] = [rev (c # cur)]"
| "splitAcc cur (c # d # cs) =
     (if c = CHR '':'' \<and> isWhiteSpace d then rev cur # splitAcc [] cs
      else splitAcc (c # cur) (d # cs))"

definition splitColonSpace :: "string \<Rightarrow> string list" where
  "splitColonSpace s = splitAcc [] s"

text \<open>\<^verbatim>\<open>s.split(":")\<close>, with a one-character string as separator.\<close>

fun splitCharAcc :: "char \<Rightarrow> string \<Rightarrow> string \<Rightarrow> string list" where
  "splitCharAcc sep cur [] = [rev cur]"
| "splitCharAcc sep cur (c # cs) =
     (if c = sep then rev cur # splitCharAcc sep [] cs else splitCharAcc sep (c # cur) cs)"

definition splitChar :: "char \<Rightarrow> string \<Rightarrow> string list" where
  "splitChar sep s = splitCharAcc sep [] s"

subsection \<open>Number parsing\<close>

text \<open>The value of a character as a digit, up to radix 16.\<close>

definition digitValue :: "char \<Rightarrow> nat option" where
  "digitValue c =
     (let n = (of_char c :: nat)
      in if 48 \<le> n \<and> n \<le> 57 then Some (n - 48)
         else if 97 \<le> n \<and> n \<le> 102 then Some (n - 87)
         else if 65 \<le> n \<and> n \<le> 70 then Some (n - 55)
         else None)"

definition isRadixDigit :: "nat \<Rightarrow> char \<Rightarrow> bool" where
  "isRadixDigit r c = (case digitValue c of None \<Rightarrow> False | Some d \<Rightarrow> d < r)"

definition digitsValue :: "nat \<Rightarrow> string \<Rightarrow> nat" where
  "digitsValue r ds =
     foldl (\<lambda>acc c. acc * r + (case digitValue c of None \<Rightarrow> 0 | Some d \<Rightarrow> d)) 0 ds"

text \<open>An optional sign in front of a numeral: whether it is a minus, and the rest.\<close>

fun signOf :: "string \<Rightarrow> bool \<times> string" where
  "signOf [] = (False, [])"
| "signOf (c # cs) =
     (if c = CHR ''-'' then (True, cs) else if c = CHR ''+'' then (False, cs) else (False, c # cs))"

text \<open>
  \<^verbatim>\<open>parseInt(v)\<close> with no radix: leading white space is dropped, a sign is read, a prefix
  \<open>0x\<close> or \<open>0X\<close> selects radix 16, and the longest run of digits is the value; no digit
  gives \<open>NaN\<close>. The argument \<open>undefined\<close> is read as the text \<open>undefined\<close>, which has no
  digit. The result is the exact integer: the code rounds it to the nearest double, which
  differs from \<open>2 ^ 53\<close> on, and the model does not.
\<close>

definition parseInt :: "string option \<Rightarrow> jsnum" where
  "parseInt v =
     (case v of
        None \<Rightarrow> NaN
      | Some str \<Rightarrow>
          (let (neg, s1) = signOf (dropWhile isWhiteSpace str);
               hex = (take 2 s1 = ''0x'' \<or> take 2 s1 = ''0X'');
               r = (if hex then 16 else 10);
               s2 = (if hex then drop 2 s1 else s1);
               z = takeWhile (isRadixDigit r) s2
           in if z = [] then NaN
              else Fin (of_int ((if neg then -1 else 1) * int (digitsValue r z)))))"

text \<open>
  The exponent part of a decimal literal, \<open>e\<close> or \<open>E\<close>, an optional sign and at least
  one digit; anything else is no exponent, and the literal ends before it.
\<close>

definition exponentPart :: "string \<Rightarrow> int" where
  "exponentPart s =
     (case s of
        [] \<Rightarrow> 0
      | c # cs \<Rightarrow>
          if c = CHR ''e'' \<or> c = CHR ''E'' then
            (let (neg, ds) = signOf cs;
                 z = takeWhile (isRadixDigit 10) ds
             in if z = [] then 0 else (if neg then -1 else 1) * int (digitsValue 10 z))
          else 0)"

text \<open>
  \<^verbatim>\<open>parseFloat(v)\<close>: leading white space is dropped and the longest prefix that is a
  decimal literal is the value: a sign, then \<open>Infinity\<close>, or digits with an optional
  fraction and exponent; when neither the integer part nor the fraction has a digit the
  result is \<open>NaN\<close>. The result is the exact decimal value: the rounding of the code to a
  double, with its overflow to \<open>Infinity\<close> and its underflow to zero, is left out.
\<close>

definition parseFloat :: "string option \<Rightarrow> jsnum" where
  "parseFloat v =
     (case v of
        None \<Rightarrow> NaN
      | Some str \<Rightarrow>
          (let (neg, s1) = signOf (dropWhile isWhiteSpace str)
           in if startsWith s1 ''Infinity'' then (if neg then NegInf else PosInf)
              else
                (let ip = takeWhile (isRadixDigit 10) s1;
                     r1 = dropWhile (isRadixDigit 10) s1;
                     dot = (r1 \<noteq> [] \<and> hd r1 = CHR ''.'');
                     fp = (if dot then takeWhile (isRadixDigit 10) (tl r1) else []);
                     r2 = (if dot then dropWhile (isRadixDigit 10) (tl r1) else r1)
                 in if ip = [] \<and> fp = [] then NaN
                    else
                      (let ex = exponentPart r2;
                           m = (of_nat (digitsValue 10 (ip @ fp)) :: rat) / 10 ^ length fp;
                           q = (if 0 \<le> ex then m * 10 ^ nat ex else m / 10 ^ nat (- ex))
                       in Fin (if neg then - q else q)))))"

section \<open>The client\<close>

text \<open>
  The client object holds the connection target only. Every method of the class is
  modelled with the object as its first argument, as the method receives \<^verbatim>\<open>this\<close>; no
  method assigns to a field, so none returns an updated object.
\<close>

record MpdClient =
  hostname :: string
  port :: int

text \<open>The constructor; the port defaults to 6600.\<close>

definition newMpdClient :: "string \<Rightarrow> int option \<Rightarrow> MpdClient" where
  "newMpdClient h p = \<lparr>hostname = h, port = (case p of None \<Rightarrow> 6600 | Some n \<Rightarrow> n)\<rparr>"

text \<open>The three signals of \<^verbatim>\<open>MpdSignal\<close>.\<close>

definition VERSION :: string where "VERSION = ''OK MPD''"
definition END :: string where "END = ''OK''"
definition ERROR :: string where "ERROR = ''ACK''"

subsection \<open>Parsing one line\<close>

text \<open>
  \<^verbatim>\<open>parseMessageLine\<close>. The statement \<^verbatim>\<open>if (!messageLine) result;\<close> at its head has no
  effect, so it has no counterpart here. The line is split by \<^verbatim>\<open>/:\s/\<close> and the first
  two pieces are the key and the value; the value is \<open>undefined\<close> (\<open>None\<close>) when there is
  one piece only. The \<^verbatim>\<open>switch\<close> compares the key as it stands. Calling \<^verbatim>\<open>value.split\<close>
  on \<open>undefined\<close> raises a \<^verbatim>\<open>TypeError\<close>.
\<close>

definition parseMessageLine :: "MpdClient \<Rightarrow> string \<Rightarrow> error + MpdMessage" where
  "parseMessageLine this messageLine =
     (case splitColonSpace messageLine of
        [] \<Rightarrow> Inl TypeError
      | key # rest \<Rightarrow>
          (let val = nthOpt rest 0
           in if key \<in> set [''Id'', ''Pos'', ''volume'', ''repeat'', ''random'', ''single'',
                              ''consume'', ''playlist'']
              then Inr [toLowerCase key \<mapsto> Num (parseInt val)]
              else if key = ''directory''
              then Inr [''file'' \<mapsto> jsOfOpt val, ''isDir'' \<mapsto> Num (Fin 1)]
              else if key = ''Last-Modified''
              then Inr [''lastModified'' \<mapsto> DateOf val]
              else if key = ''Time''
              then Inr [''duration'' \<mapsto> Num (parseFloat val)]
              else if key = ''song''
              then Inr [''songPos'' \<mapsto> Num (parseInt val)]
              else if key = ''songid''
              then Inr [''songId'' \<mapsto> Num (parseInt val)]
              else if key = ''time''
              then (case val of
                      None \<Rightarrow> Inl TypeError
                    | Some v \<Rightarrow>
                        (let time = splitChar CHR '':'' v
                         in Inr [''duration'' \<mapsto> Num (parseFloat (nthOpt time 1))]))
              else if key = ''elapsed''
              then Inr [''elapsed'' \<mapsto> Num (parseFloat val)]
              else if key = ''bitrate''
              then Inr [''bitRate'' \<mapsto> Num (parseInt val)]
              else if key = ''audio''
              then (case val of
                      None \<Rightarrow> Inl TypeError
                    | Some v \<Rightarrow>
                        (let audio = splitChar CHR '':'' v
                         in Inr [''sampleRate'' \<mapsto> Num (parseInt (nthOpt audio 0)),
                                 ''sampleBits'' \<mapsto> Num (parseInt (nthOpt audio 1))]))
              else Inr [toLowerCase key \<mapsto> jsOfOpt val]))"

subsection \<open>Assembling messages\<close>

text \<open>
  \<^verbatim>\<open>parseMessageObject\<close>: every line is parsed and merged into one record by
  \<^verbatim>\<open>Object.assign\<close>, which is \<open>++\<close> on maps. An exception of the line parser ends the loop.
\<close>

fun objectLoop :: "MpdClient \<Rightarrow> MpdMessage \<Rightarrow> string list \<Rightarrow> error + MpdMessage" where
  "objectLoop this result [] = Inr result"
| "objectLoop this result (line # lines) =
     (case parseMessageLine this line of
        Inl e \<Rightarrow> Inl e
      | Inr message \<Rightarrow> objectLoop this (result ++ message) lines)"

definition parseMessageObject :: "MpdClient \<Rightarrow> string list \<Rightarrow> error + MpdMessage" where
  "parseMessageObject this messageLines = objectLoop this Map.empty messageLines"

text \<open>
  \<^verbatim>\<open>parseMessageList\<close>. The variable \<^verbatim>\<open>message\<close> refers to an object that is already in
  the result array, so the loop state is the array and the index of that object
  (\<open>None\<close> for \<^verbatim>\<open>null\<close>); \<^verbatim>\<open>Object.assign(message, _message)\<close> updates the array at that
  index.
\<close>

fun listLoop ::
  "MpdClient \<Rightarrow> string \<Rightarrow> MpdMessage list \<Rightarrow> nat option \<Rightarrow> string list
     \<Rightarrow> error + MpdMessage list" where
  "listLoop this delimiter result message [] = Inr result"
| "listLoop this delimiter result message (line # lines) =
     (let starts = startsWith line delimiter;
          result1 = (if starts then result @ [Map.empty] else result);
          message1 = (if starts then Some (length result) else message)
      in case message1 of
           None \<Rightarrow> listLoop this delimiter result1 message1 lines
         | Some i \<Rightarrow>
             (case parseMessageLine this line of
                Inl e \<Rightarrow> Inl e
              | Inr m \<Rightarrow>
                  listLoop this delimiter (result1[i := (result1 ! i) ++ m]) message1 lines))"

text \<open>
  The delimiter is the first line up to and including its first colon. Reading
  \<^verbatim>\<open>messageLines[0]\<close> of an empty array gives \<open>undefined\<close>, and the call of \<^verbatim>\<open>substring\<close>
  on it raises a \<^verbatim>\<open>TypeError\<close>.
\<close>

definition parseMessageList :: "MpdClient \<Rightarrow> string list \<Rightarrow> error + MpdMessage list" where
  "parseMessageList this messageLines =
     (case messageLines of
        [] \<Rightarrow> Inl TypeError
      | first # _ \<Rightarrow>
          (let delimiter = substring first 0 (indexOf first CHR '':'' + 1)
           in listLoop this delimiter [] None messageLines))"

section \<open>Commands\<close>

subsection \<open>The network\<close>

text \<open>
  The world outside the client: which targets accept a connection, the connections
  opened so far, the texts handed to \<^verbatim>\<open>conn.write\<close> (one entry for each call, before
  their encoding to bytes), and the lines that the line stream of the next connection
  yields. The list of lines is finite: a server that stalls for ever is not modelled,
  the stream ends after the last line.
\<close>

record network =
  accepts :: "string \<times> int \<Rightarrow> bool"
  opened :: "(string \<times> int) list"
  written :: "string list"
  incoming :: "string list"

text \<open>\<^verbatim>\<open>getConnection\<close>: \<^verbatim>\<open>Deno.connect\<close> to the target of the client, which may be refused.\<close>

definition getConnection :: "MpdClient \<Rightarrow> network \<Rightarrow> error + network" where
  "getConnection this net =
     (let target = (hostname this, port this)
      in if accepts net target then Inr (net\<lparr>opened := opened net @ [target]\<rparr>)
         else Inl ConnectError)"

subsection \<open>Arguments\<close>

text \<open>
  The optional argument of a command is a string or a number. Numbers are the
  integers here (identifiers, positions and flags); \<open>NaN\<close> and fractions are left out,
  and an integer stands for the number of the code only while it is a double.
\<close>

datatype argument = ArgStr string | ArgNum int

text \<open>The test \<^verbatim>\<open>argument ? ... : ...\<close>: absent, \<open>0\<close> and the empty string are falsy.\<close>

fun argTruthy :: "argument option \<Rightarrow> bool" where
  "argTruthy None = False"
| "argTruthy (Some (ArgStr s)) = (s \<noteq> [])"
| "argTruthy (Some (ArgNum n)) = (n \<noteq> 0)"

text \<open>
  Decimal digits of a natural number and of an integer, as a template literal prints an
  integer below \<open>10 ^ 21\<close> in magnitude; from there on the code prints an exponent form,
  which is not modelled.
\<close>

function showNat :: "nat \<Rightarrow> string" where
  "showNat n = (if n < 10 then [''0123456789'' ! n] else showNat (n div 10) @ [''0123456789'' ! (n mod 10)])"
  by pat_completeness auto
termination
  by (relation "measure (\<lambda>n. n)") auto

definition showInt :: "int \<Rightarrow> string" where
  "showInt i = (if i < 0 then CHR ''-'' # showNat (nat (- i)) else showNat (nat i))"

fun argText :: "argument option \<Rightarrow> string" where
  "argText None = ''undefined''"
| "argText (Some (ArgStr s)) = s"
| "argText (Some (ArgNum n)) = showInt n"

text \<open>The command line: \<^verbatim>\<open>argument ? `${command} "${argument}"` : command\<close>.\<close>

definition commandLine :: "string \<Rightarrow> argument option \<Rightarrow> string" where
  "commandLine command argument =
     (if argTruthy argument
      then command @ '' '' @ [CHR 0x22] @ argText argument @ [CHR 0x22]
      else command)"

subsection \<open>Reading the response\<close>

text \<open>
  The loop over the line stream. It returns the data lines, or the error of an
  \<open>ACK\<close> line, together with the lines it has not read. When the stream ends before
  the terminator the loop ends as well.
\<close>

fun readLines :: "string list \<Rightarrow> string list \<Rightarrow> (error + string list) \<times> string list" where
  "readLines result [] = (Inr result, [])"
| "readLines result (line # lines) =
     (if line = END then (Inr result, lines)
      else if startsWith line VERSION then readLines result lines
      else if startsWith line ERROR
      then (Inl (Error (substringFrom line (int (length ERROR) + 1))), lines)
      else readLines (result @ [line]) lines)"

datatype response = Object MpdMessage | List "MpdMessage list"

text \<open>
  \<^verbatim>\<open>sendCommand\<close>: the command line is built, a connection is opened, the line and a
  line feed are written in one call, the response is read, and the verb decides how the
  data lines are parsed.
\<close>

definition sendCommand ::
  "MpdClient \<Rightarrow> string \<Rightarrow> argument option \<Rightarrow> network \<Rightarrow> (error + response) \<times> network" where
  "sendCommand this command argument net =
     (let line = commandLine command argument
      in case getConnection this net of
           Inl e \<Rightarrow> (Inl e, net)
         | Inr net1 \<Rightarrow>
             (let net2 = net1\<lparr>written := written net1 @ [line @ [CHR 0x0A]]\<rparr>;
                  (r, remaining) = readLines [] (incoming net2);
                  net3 = net2\<lparr>incoming := remaining\<rparr>
              in case r of
                   Inl e \<Rightarrow> (Inl e, net3)
                 | Inr result \<Rightarrow>
                     if command = ''playlistinfo'' \<or> command = ''lsinfo''
                     then (map_sum id List (parseMessageList this result), net3)
                     else (map_sum id Object (parseMessageObject this result), net3)))"

subsection \<open>The operations of the client\<close>

definition getStatus :: "MpdClient \<Rightarrow> network \<Rightarrow> (error + response) \<times> network" where
  "getStatus this net = sendCommand this ''status'' None net"

definition getCurrentSong :: "MpdClient \<Rightarrow> network \<Rightarrow> (error + response) \<times> network" where
  "getCurrentSong this net = sendCommand this ''currentsong'' None net"

definition getPlaylist :: "MpdClient \<Rightarrow> network \<Rightarrow> (error + response) \<times> network" where
  "getPlaylist this net = sendCommand this ''playlistinfo'' None net"

text \<open>An operation that returns nothing keeps the failure and the network only.\<close>

definition discard :: "(error + response) \<times> network \<Rightarrow> (error + unit) \<times> network" where
  "discard p = (map_sum id (\<lambda>_. ()) (fst p), snd p)"

definition playId :: "MpdClient \<Rightarrow> int \<Rightarrow> network \<Rightarrow> (error + unit) \<times> network" where
  "playId this ident net = discard (sendCommand this ''playid'' (Some (ArgNum ident)) net)"

definition play :: "MpdClient \<Rightarrow> network \<Rightarrow> (error + unit) \<times> network" where
  "play this net = discard (sendCommand this ''play'' None net)"

definition setRepeat :: "MpdClient \<Rightarrow> int \<Rightarrow> network \<Rightarrow> (error + unit) \<times> network" where
  "setRepeat this state net = discard (sendCommand this ''repeat'' (Some (ArgNum state)) net)"

definition setSingle :: "MpdClient \<Rightarrow> int \<Rightarrow> network \<Rightarrow> (error + unit) \<times> network" where
  "setSingle this state net = discard (sendCommand this ''single'' (Some (ArgNum state)) net)"

definition setRandom :: "MpdClient \<Rightarrow> int \<Rightarrow> network \<Rightarrow> (error + unit) \<times> network" where
  "setRandom this state net = discard (sendCommand this ''random'' (Some (ArgNum state)) net)"

definition plusMessage :: string where
  "plusMessage = ''The path cannot contain a '' @ [CHR 0x22] @ ''+'' @ [CHR 0x22] @ '' sign''"

definition addSong :: "MpdClient \<Rightarrow> string \<Rightarrow> network \<Rightarrow> (error + unit) \<times> network" where
  "addSong this path net =
     (if 0 \<le> indexOf path CHR ''+'' then (Inl (Error plusMessage), net)
      else discard (sendCommand this ''add'' (Some (ArgStr path)) net))"

definition removeSong :: "MpdClient \<Rightarrow> int \<Rightarrow> network \<Rightarrow> (error + unit) \<times> network" where
  "removeSong this ident net = discard (sendCommand this ''deleteid'' (Some (ArgNum ident)) net)"

section \<open>The directory listing\<close>

subsection \<open>The comparator of names\<close>

text \<open>
  \<^verbatim>\<open>localeCompare\<close> of \<^verbatim>\<open>util.ts\<close> ranks a character by the first of four regular
  expressions that matches it: white space and punctuation, digits, letters, and any
  character but a line terminator.
\<close>

definition isPunctuation :: "char \<Rightarrow> bool" where
  "isPunctuation c =
     (isWhiteSpace c \<or> c \<in> set (''~!@#$%^&*()-_+={}[]|<>,.?/'' @ [CHR 0x5C]))"

definition isLetter :: "char \<Rightarrow> bool" where
  "isLetter c =
     (let n = (of_char c :: nat) in (65 \<le> n \<and> n \<le> 90) \<or> (97 \<le> n \<and> n \<le> 122))"

definition regExpIndex :: "char \<Rightarrow> int" where
  "regExpIndex c =
     (if isPunctuation c then 0
      else if isRadixDigit 10 c then 1
      else if isLetter c then 2
      else if c \<noteq> CHR 0x0A \<and> c \<noteq> CHR 0x0D then 3
      else -1)"

text \<open>
  The loop over the common positions; \<open>None\<close> when it ends without a decision. In the
  last tier the characters are compared by the collation of the locale, which belongs to
  the engine and is the parameter \<open>collate\<close>. \<^verbatim>\<open>parseInt\<close> of a single digit is its value,
  and \<^verbatim>\<open><\<close> on one-character strings compares the code units.
\<close>

fun compareChars :: "(char \<Rightarrow> char \<Rightarrow> int) \<Rightarrow> string \<Rightarrow> string \<Rightarrow> int option" where
  "compareChars collate (aChar # as) (bChar # bs) =
     (if aChar = bChar then compareChars collate as bs
      else
        (let aIndex = regExpIndex aChar;
             bIndex = regExpIndex bChar
         in if aIndex \<noteq> bIndex then Some (aIndex - bIndex)
            else if aIndex = 1
            then Some (int (digitsValue 10 [aChar]) - int (digitsValue 10 [bChar]))
            else if aIndex = 2
            then Some (if (of_char (lowerChar aChar) :: nat) < of_char (lowerChar bChar)
                       then -1 else 1)
            else if aIndex = 3 then Some (collate aChar bChar)
            else Some (if (of_char aChar :: nat) < of_char bChar then -1 else 1)))"
| "compareChars collate as bs = None"

definition localeCompare :: "(char \<Rightarrow> char \<Rightarrow> int) \<Rightarrow> string \<Rightarrow> string \<Rightarrow> int" where
  "localeCompare collate aStr bStr =
     (case compareChars collate aStr bStr of
        Some r \<Rightarrow> r
      | None \<Rightarrow> int (length aStr) - int (length bStr))"

text \<open>
  The comparator is called on the \<^verbatim>\<open>file\<close> fields, cast to strings without a check.
  Reading the length of \<open>undefined\<close> raises a \<^verbatim>\<open>TypeError\<close>. A number or a date has no
  length, the comparison then yields \<open>NaN\<close>, which the sort reads as \<open>0\<close>; the parser
  never stores such a value under \<^verbatim>\<open>file\<close>.
\<close>

fun localeCompareFields ::
  "(char \<Rightarrow> char \<Rightarrow> int) \<Rightarrow> jsval option \<Rightarrow> jsval option \<Rightarrow> error + int" where
  "localeCompareFields collate (Some (Str x)) (Some (Str y)) = Inr (localeCompare collate x y)"
| "localeCompareFields collate None b = Inl TypeError"
| "localeCompareFields collate (Some Undefined) b = Inl TypeError"
| "localeCompareFields collate a None = Inl TypeError"
| "localeCompareFields collate a (Some Undefined) = Inl TypeError"
| "localeCompareFields collate a b = Inr 0"

text \<open>The comparator that \<^verbatim>\<open>getLibrary\<close> hands to the sort.\<close>

definition libraryCompare ::
  "(char \<Rightarrow> char \<Rightarrow> int) \<Rightarrow> MpdMessage \<Rightarrow> MpdMessage \<Rightarrow> error + int" where
  "libraryCompare collate a b =
     (if truthy (a ''isDir'') \<and> \<not> truthy (b ''isDir'') then Inr (-1)
      else localeCompareFields collate (a ''file'') (b ''file''))"

subsection \<open>The sort of the engine\<close>

text \<open>
  \<^verbatim>\<open>Array.prototype.sort\<close> is the engine's. Deno runs on V8, which sorts an array of
  fewer than 64 elements in two steps: it finds the run at the head of the array
  (reversing it when it descends) and inserts the remaining elements one by one, each at
  the place a binary search finds. That is what is modelled, for every length. A longer
  array is cut by the engine into such runs that are merged: for a comparator that is a
  consistent order the result is the same stable sort, for another comparator the model
  is the engine's sort below 64 elements only. An exception of the comparator ends the
  sort.
\<close>

type_synonym 'a comparefn = "'a \<Rightarrow> 'a \<Rightarrow> error + int"

text \<open>How many elements after the second continue the run.\<close>

fun runLength :: "'a comparefn \<Rightarrow> bool \<Rightarrow> 'a \<Rightarrow> 'a list \<Rightarrow> error + nat" where
  "runLength cmp descending previous [] = Inr 0"
| "runLength cmp descending previous (current # rest) =
     (case cmp current previous of
        Inl e \<Rightarrow> Inl e
      | Inr order \<Rightarrow>
          if (if descending then 0 \<le> order else order < 0) then Inr 0
          else (case runLength cmp descending current rest of
                  Inl e \<Rightarrow> Inl e
                | Inr n \<Rightarrow> Inr (Suc n)))"

text \<open>The run at the head, in ascending order, and the elements behind it.\<close>

fun countAndMakeRun :: "'a comparefn \<Rightarrow> 'a list \<Rightarrow> error + 'a list \<times> 'a list" where
  "countAndMakeRun cmp (x0 # x1 # rest) =
     (case cmp x1 x0 of
        Inl e \<Rightarrow> Inl e
      | Inr order \<Rightarrow>
          (case runLength cmp (order < 0) x1 rest of
             Inl e \<Rightarrow> Inl e
           | Inr n \<Rightarrow>
               (let run = x0 # x1 # take n rest
                in Inr (if order < 0 then rev run else run, drop n rest))))"
| "countAndMakeRun cmp xs = Inr (xs, [])"

text \<open>The place of the pivot among \<open>xs\<close> between \<open>left\<close> and \<open>right\<close>, with \<open>right \<le> length xs\<close>.\<close>

function binarySearch :: "'a comparefn \<Rightarrow> 'a \<Rightarrow> 'a list \<Rightarrow> nat \<Rightarrow> nat \<Rightarrow> error + nat" where
  "binarySearch cmp pivot xs left right =
     (if left < right then
        (let mid = left + (right - left) div 2
         in case cmp pivot (xs ! mid) of
              Inl e \<Rightarrow> Inl e
            | Inr order \<Rightarrow>
                if order < 0 then binarySearch cmp pivot xs left mid
                else binarySearch cmp pivot xs (mid + 1) right)
      else Inr left)"
  by pat_completeness auto
termination
  by (relation "measure (\<lambda>(cmp, pivot, xs, left, right). right - left)") auto

fun binaryInsertionSort :: "'a comparefn \<Rightarrow> 'a list \<Rightarrow> 'a list \<Rightarrow> error + 'a list" where
  "binaryInsertionSort cmp front [] = Inr front"
| "binaryInsertionSort cmp front (pivot # rest) =
     (case binarySearch cmp pivot front 0 (length front) of
        Inl e \<Rightarrow> Inl e
      | Inr left \<Rightarrow> binaryInsertionSort cmp (take left front @ pivot # drop left front) rest)"

definition arraySort :: "'a comparefn \<Rightarrow> 'a list \<Rightarrow> error + 'a list" where
  "arraySort cmp xs =
     (if length xs < 2 then Inr xs
      else (case countAndMakeRun cmp xs of
              Inl e \<Rightarrow> Inl e
            | Inr (run, rest) \<Rightarrow> binaryInsertionSort cmp run rest))"

subsection \<open>\<^verbatim>\<open>getLibrary\<close>\<close>

text \<open>
  The listing of a path, sorted. The verb \<open>lsinfo\<close> is parsed as a list; the cast of the
  result to an array is unchecked, and calling \<^verbatim>\<open>sort\<close> on a record would raise a
  \<^verbatim>\<open>TypeError\<close>.
\<close>

definition getLibrary ::
  "(char \<Rightarrow> char \<Rightarrow> int) \<Rightarrow> MpdClient \<Rightarrow> string \<Rightarrow> network
     \<Rightarrow> (error + MpdMessage list) \<times> network" where
  "getLibrary collate this path net =
     (case sendCommand this ''lsinfo'' (Some (ArgStr path)) net of
        (Inl e, net1) \<Rightarrow> (Inl e, net1)
      | (Inr (Object m), net1) \<Rightarrow> (Inl TypeError, net1)
      | (Inr (List list), net1) \<Rightarrow> (arraySort (libraryCompare collate) list, net1))"

section \<open>Parsing with the objects in a store\<close>

text \<open>
  The parse methods create objects and change them: \<^verbatim>\<open>{}\<close> creates a record,
  \<^verbatim>\<open>result[key] = value\<close> sets a property of it, and \<^verbatim>\<open>Object.assign\<close> copies the properties
  of one record into another one, which in list mode is a record that the result array
  already holds. To state what a parse reads and what it leaves behind, the three methods
  are given a second time with these effects written out. The store is the list of all
  records created so far, and the address of a record is its position; a method takes
  the store and returns it with its result, which is an address. Nothing is ever removed
  from the store. The array of \<^verbatim>\<open>parseMessageList\<close> is local to the call, it is the list of
  the addresses pushed to it. The regular expression of the line parser is created at
  each evaluation and has no \<open>g\<close> flag, so it keeps no position.
\<close>

type_synonym addr = nat
type_synonym store = "MpdMessage list"

text \<open>\<^verbatim>\<open>{}\<close>: a new empty record behind the records that exist.\<close>

definition newObject :: "store \<Rightarrow> addr \<times> store" where
  "newObject s = (length s, s @ [Map.empty])"

text \<open>\<^verbatim>\<open>a[k] = v\<close> and \<^verbatim>\<open>Object.assign(target, source)\<close>, on addresses of the store.\<close>

definition setProperty :: "addr \<Rightarrow> string \<Rightarrow> jsval \<Rightarrow> store \<Rightarrow> store" where
  "setProperty a k v s = s[a := (s ! a)(k \<mapsto> v)]"

definition objectAssign :: "addr \<Rightarrow> addr \<Rightarrow> store \<Rightarrow> store" where
  "objectAssign target source s = s[target := (s ! target) ++ (s ! source)]"

text \<open>
  \<^verbatim>\<open>parseMessageLine\<close>: the record \<^verbatim>\<open>result\<close> is created first, the line is split, and
  the case of the key sets one or two properties of the record; the \<^verbatim>\<open>TypeError\<close> of
  \<^verbatim>\<open>value.split\<close> is raised with the record already created.
\<close>

definition parseMessageLineS :: "MpdClient \<Rightarrow> string \<Rightarrow> store \<Rightarrow> (error + addr) \<times> store" where
  "parseMessageLineS this messageLine s =
     (let (result, s1) = newObject s
      in case splitColonSpace messageLine of
           [] \<Rightarrow> (Inl TypeError, s1)
         | key # rest \<Rightarrow>
             (let val = nthOpt rest 0
              in if key \<in> set [''Id'', ''Pos'', ''volume'', ''repeat'', ''random'', ''single'',
                                 ''consume'', ''playlist'']
                 then (Inr result, setProperty result (toLowerCase key) (Num (parseInt val)) s1)
                 else if key = ''directory''
                 then (Inr result,
                       setProperty result ''isDir'' (Num (Fin 1))
                         (setProperty result ''file'' (jsOfOpt val) s1))
                 else if key = ''Last-Modified''
                 then (Inr result, setProperty result ''lastModified'' (DateOf val) s1)
                 else if key = ''Time''
                 then (Inr result, setProperty result ''duration'' (Num (parseFloat val)) s1)
                 else if key = ''song''
                 then (Inr result, setProperty result ''songPos'' (Num (parseInt val)) s1)
                 else if key = ''songid''
                 then (Inr result, setProperty result ''songId'' (Num (parseInt val)) s1)
                 else if key = ''time''
                 then (case val of
                         None \<Rightarrow> (Inl TypeError, s1)
                       | Some v \<Rightarrow>
                           (let time = splitChar CHR '':'' v
                            in (Inr result,
                                setProperty result ''duration''
                                  (Num (parseFloat (nthOpt time 1))) s1)))
                 else if key = ''elapsed''
                 then (Inr result, setProperty result ''elapsed'' (Num (parseFloat val)) s1)
                 else if key = ''bitrate''
                 then (Inr result, setProperty result ''bitRate'' (Num (parseInt val)) s1)
                 else if key = ''audio''
                 then (case val of
                         None \<Rightarrow> (Inl TypeError, s1)
                       | Some v \<Rightarrow>
                           (let audio = splitChar CHR '':'' v
                            in (Inr result,
                                setProperty result ''sampleBits'' (Num (parseInt (nthOpt audio 1)))
                                  (setProperty result ''sampleRate''
                                     (Num (parseInt (nthOpt audio 0))) s1))))
                 else (Inr result, setProperty result (toLowerCase key) (jsOfOpt val) s1)))"

text \<open>\<^verbatim>\<open>parseMessageObject\<close>: one record, into which the record of every line is copied.\<close>

fun objectLoopS :: "MpdClient \<Rightarrow> addr \<Rightarrow> string list \<Rightarrow> store \<Rightarrow> (error + addr) \<times> store" where
  "objectLoopS this result [] s = (Inr result, s)"
| "objectLoopS this result (line # lines) s =
     (case parseMessageLineS this line s of
        (Inl e, s1) \<Rightarrow> (Inl e, s1)
      | (Inr message, s1) \<Rightarrow> objectLoopS this result lines (objectAssign result message s1))"

definition parseMessageObjectS :: "MpdClient \<Rightarrow> string list \<Rightarrow> store \<Rightarrow> (error + addr) \<times> store" where
  "parseMessageObjectS this messageLines s =
     (let (result, s1) = newObject s in objectLoopS this result messageLines s1)"

text \<open>
  \<^verbatim>\<open>parseMessageList\<close>: \<^verbatim>\<open>message\<close> is \<^verbatim>\<open>null\<close> or the address of the record created last,
  which is the last one pushed to the array.
\<close>

fun listLoopS ::
  "MpdClient \<Rightarrow> string \<Rightarrow> addr list \<Rightarrow> addr option \<Rightarrow> string list \<Rightarrow> store
     \<Rightarrow> (error + addr list) \<times> store" where
  "listLoopS this delimiter result message [] s = (Inr result, s)"
| "listLoopS this delimiter result message (line # lines) s =
     (let starts = startsWith line delimiter;
          fresh = newObject s;
          result1 = (if starts then result @ [fst fresh] else result);
          message1 = (if starts then Some (fst fresh) else message);
          s1 = (if starts then snd fresh else s)
      in case message1 of
           None \<Rightarrow> listLoopS this delimiter result1 message1 lines s1
         | Some m \<Rightarrow>
             (case parseMessageLineS this line s1 of
                (Inl e, s2) \<Rightarrow> (Inl e, s2)
              | (Inr m', s2) \<Rightarrow>
                  listLoopS this delimiter result1 message1 lines (objectAssign m m' s2)))"

definition parseMessageListS ::
  "MpdClient \<Rightarrow> string list \<Rightarrow> store \<Rightarrow> (error + addr list) \<times> store" where
  "parseMessageListS this messageLines s =
     (case messageLines of
        [] \<Rightarrow> (Inl TypeError, s)
      | first # _ \<Rightarrow>
          (let delimiter = substring first 0 (indexOf first CHR '':'' + 1)
           in listLoopS this delimiter [] None messageLines s))"

text \<open>What the caller sees of a result: the record, or the records, behind the addresses.\<close>

definition objectValue :: "(error + addr) \<times> store \<Rightarrow> error + MpdMessage" where
  "objectValue r = map_sum id (\<lambda>a. snd r ! a) (fst r)"

definition listValue :: "(error + addr list) \<times> store \<Rightarrow> error + MpdMessage list" where
  "listValue r = map_sum id (map (\<lambda>a. snd r ! a)) (fst r)"

section \<open>Example values\<close>

text \<open>The client of the class documentation, and a network that accepts every connection.\<close>

definition exampleClient :: MpdClient where
  "exampleClient = newMpdClient ''10.0.0.2'' (Some 6600)"

definition freshNetwork :: "string list \<Rightarrow> network" where
  "freshNetwork ls = \<lparr>accepts = (\<lambda>target. True), opened = [], written = [], incoming = ls\<rparr>"

text \<open>
  Whether a line holds a separator, a colon followed by a white space character. This
  is the notion of the specification; it is stated on its own, not through the split.
\<close>

fun hasSeparator :: "string \<Rightarrow> bool" where
  "hasSeparator (c # d # cs) = ((c = CHR '':'' \<and> isWhiteSpace d) \<or> hasSeparator (d # cs))"
| "hasSeparator cs = False"

section \<open>Auxiliary facts\<close>

lemma indexOf_nonneg_iff: "0 \<le> indexOf s c \<longleftrightarrow> c \<in> set s"
  by (induction s) (auto simp: Let_def)

lemma substringFrom_drop: "substringFrom s (int k) = drop k s"
  by (cases "k \<le> length s") (simp_all add: substringFrom_def substring_def Let_def min_def max_def)

lemma sendCommand_written:
  "accepts net (hostname this, port this) \<Longrightarrow>
   written (snd (sendCommand this command argument net)) =
     written net @ [commandLine command argument @ [CHR 0x0A]]"
  by (simp add: sendCommand_def getConnection_def Let_def split: sum.splits prod.splits)

lemma readLines_error:
  assumes "\<forall>l \<in> set pre. l \<noteq> END \<and> \<not> startsWith l ERROR"
    and "startsWith line ERROR"
  shows "readLines acc (pre @ line # rest) = (Inl (Error (drop (length ERROR + 1) line)), rest)"
  using assms
proof (induction pre arbitrary: acc)
  case Nil
  have "line \<noteq> END" "\<not> startsWith line VERSION"
    using Nil(2) by (cases line; simp add: startsWith_def END_def ERROR_def VERSION_def)+
  then show ?case using Nil(2) substringFrom_drop [of line "Suc (length ERROR)"]
    by (simp add: add.commute)
next
  case (Cons l pre)
  then show ?case by simp
qed

lemma sendCommand_result:
  assumes "accepts net (hostname this, port this)"
    and "readLines [] (incoming net) = (Inr ls, rest)"
  shows "fst (sendCommand this command argument net) =
           (if command = ''playlistinfo'' \<or> command = ''lsinfo''
            then map_sum id List (parseMessageList this ls)
            else map_sum id Object (parseMessageObject this ls))"
  using assms by (simp add: sendCommand_def getConnection_def Let_def)

text \<open>On two elements the sort asks the comparator once, the second element first.\<close>

lemma arraySort_two:
  "arraySort cmp [x, y] =
     (case cmp y x of
        Inl e \<Rightarrow> Inl e
      | Inr order \<Rightarrow> if order < 0 then Inr [y, x] else Inr [x, y])"
  by (simp add: arraySort_def split: sum.splits)

subsection \<open>Evaluations\<close>

lemma lower_file: "toLowerCase ''file'' = ''file''" by code_simp
lemma lower_Title: "toLowerCase ''Title'' = ''title''" by code_simp
lemma lower_volume: "toLowerCase ''volume'' = ''volume''" by code_simp
lemma lower_Genre: "toLowerCase ''Genre'' = ''genre''" by code_simp

lemma split_file_a: "splitColonSpace ''file: a.mp3'' = [''file'', ''a.mp3'']" by code_simp
lemma split_file_b: "splitColonSpace ''file: b.mp3'' = [''file'', ''b.mp3'']" by code_simp
lemma split_Time_10: "splitColonSpace ''Time: 10'' = [''Time'', ''10'']" by code_simp
lemma split_Time_20: "splitColonSpace ''Time: 20'' = [''Time'', ''20'']" by code_simp
lemma split_volume: "splitColonSpace ''volume: 42'' = [''volume'', ''42'']" by code_simp
lemma split_time: "splitColonSpace ''time'' = [''time'']" by code_simp
lemma split_Genre: "splitColonSpace ''Genre'' = [''Genre'']" by code_simp
lemma split_intro: "splitColonSpace ''file: intro.mp3'' = [''file'', ''intro.mp3'']" by code_simp
lemma split_Zappa: "splitColonSpace ''directory: Zappa'' = [''directory'', ''Zappa'']" by code_simp
lemma split_abba: "splitColonSpace ''file: abba.mp3'' = [''file'', ''abba.mp3'']" by code_simp

lemma split_Title:
  "splitColonSpace ''Title: Star Wars: A New Hope'' = [''Title'', ''Star Wars'', ''A New Hope'']"
  by code_simp

lemma parseInt_42: "parseInt (Some ''42'') = Fin 42" by code_simp

lemma parseFloat_10: "parseFloat (Some ''10'') = Fin 10" by code_simp
lemma parseFloat_20: "parseFloat (Some ''20'') = Fin 20" by code_simp

lemma compare_abba_Zappa: "localeCompare collate ''abba.mp3'' ''Zappa'' = - 1" by code_simp

subsection \<open>The store\<close>

text \<open>
  The methods on the store compute what the methods without it compute, and they leave
  every record that existed before the call as it was.
\<close>

lemma parseMessageLineS_eq:
  "parseMessageLineS this line s =
     (case parseMessageLine this' line of
        Inl e \<Rightarrow> (Inl e, s @ [Map.empty])
      | Inr m \<Rightarrow> (Inr (length s), s @ [m]))"
  by (simp add: parseMessageLineS_def parseMessageLine_def newObject_def setProperty_def Let_def
      split: list.splits option.splits)


lemma objectLoopS_sim:
  "result < length s \<Longrightarrow>
   objectValue (objectLoopS this result ls s) = objectLoop this' (s ! result) ls \<and>
   length s \<le> length (snd (objectLoopS this result ls s)) \<and>
   (\<forall>a < length s. a \<noteq> result \<longrightarrow> snd (objectLoopS this result ls s) ! a = s ! a)"
proof (induction ls arbitrary: s)
  case Nil
  then show ?case by (simp add: objectValue_def)
next
  case (Cons line ls)
  show ?case
  proof (cases "parseMessageLine this' line")
    case (Inl e)
    then show ?thesis
      using Cons.prems
      by (simp add: parseMessageLineS_eq [of this line s this'] objectValue_def nth_append)
  next
    case (Inr m)
    let ?s2 = "objectAssign result (length s) (s @ [m])"
    have len: "length ?s2 = Suc (length s)" by (simp add: objectAssign_def)
    have at: "?s2 ! result = (s ! result) ++ m"
      using Cons.prems by (simp add: objectAssign_def nth_append)
    have frame: "\<forall>a < length s. a \<noteq> result \<longrightarrow> ?s2 ! a = s ! a"
      by (simp add: objectAssign_def nth_append)
    have step: "objectLoopS this result (line # ls) s = objectLoopS this result ls ?s2"
      using Inr by (simp add: parseMessageLineS_eq [of this line s this'])
    have ih: "objectValue (objectLoopS this result ls ?s2) = objectLoop this' (?s2 ! result) ls \<and>
        length ?s2 \<le> length (snd (objectLoopS this result ls ?s2)) \<and>
        (\<forall>a < length ?s2. a \<noteq> result \<longrightarrow> snd (objectLoopS this result ls ?s2) ! a = ?s2 ! a)"
      using Cons.IH [of ?s2] Cons.prems len by simp
    show ?thesis
      unfolding step using ih Inr at frame len by simp
  qed
qed

lemma take_frame:
  assumes "length s \<le> length s'" and "\<forall>a < length s. s' ! a = s ! a"
  shows "take (length s) s' = s"
  using assms by (intro nth_equalityI) simp_all

lemma parseMessageObjectS_sim:
  "objectValue (parseMessageObjectS this ls s) = parseMessageObject this' ls \<and>
   take (length s) (snd (parseMessageObjectS this ls s)) = s"
proof -
  let ?s1 = "s @ [Map.empty]"
  have run: "parseMessageObjectS this ls s = objectLoopS this (length s) ls ?s1"
    by (simp add: parseMessageObjectS_def newObject_def)
  have sim: "objectValue (objectLoopS this (length s) ls ?s1) = objectLoop this' (?s1 ! length s) ls \<and>
      length ?s1 \<le> length (snd (objectLoopS this (length s) ls ?s1)) \<and>
      (\<forall>a < length ?s1. a \<noteq> length s \<longrightarrow> snd (objectLoopS this (length s) ls ?s1) ! a = ?s1 ! a)"
    by (rule objectLoopS_sim) simp
  have "take (length s) (snd (objectLoopS this (length s) ls ?s1)) = s"
  proof (rule take_frame)
    show "length s \<le> length (snd (objectLoopS this (length s) ls ?s1))" using sim by simp
    show "\<forall>a<length s. snd (objectLoopS this (length s) ls ?s1) ! a = s ! a"
      using sim by (simp add: nth_append)
  qed
  then show ?thesis using sim by (simp add: run parseMessageObject_def)
qed


lemma map_nth_update_last:
  assumes "distinct as" and "as \<noteq> []" and "\<forall>a\<in>set as. a < length s"
  shows "map (\<lambda>a. ((s[last as := v]) @ t) ! a) as = (map (\<lambda>a. s ! a) as)[length as - 1 := v]"
proof -
  obtain bs m where as: "as = bs @ [m]" using assms(2) by (cases as rule: rev_cases) auto
  have m: "m \<notin> set bs" "m < length s" using assms(1,3) as by auto
  have "map (\<lambda>a. ((s[m := v]) @ t) ! a) bs = map (\<lambda>a. s ! a) bs"
    using assms(3) m as by (auto simp: nth_append nth_list_update)
  then show ?thesis using m by (simp add: as nth_append list_update_append)
qed

lemma listLoopS_sim:
  assumes "distinct addrs" and "\<forall>a\<in>set addrs. a < length s"
    and "(message = None \<and> pmessage = None) \<or>
         (addrs \<noteq> [] \<and> message = Some (last addrs) \<and> pmessage = Some (length addrs - 1))"
  shows "listValue (listLoopS this d addrs message ls s) =
           listLoop this' d (map (\<lambda>a. s ! a) addrs) pmessage ls \<and>
         length s \<le> length (snd (listLoopS this d addrs message ls s)) \<and>
         (\<forall>a < length s. a \<notin> set addrs \<longrightarrow> snd (listLoopS this d addrs message ls s) ! a = s ! a) \<and>
         (\<forall>as. fst (listLoopS this d addrs message ls s) = Inr as \<longrightarrow>
            (\<forall>a\<in>set as. a < length (snd (listLoopS this d addrs message ls s))))"
  using assms
proof (induction ls arbitrary: addrs message pmessage s)
  case Nil
  then show ?case by (simp add: listValue_def)
next
  case (Cons line ls)
  define starts where "starts = startsWith line d"
  define addrs1 where "addrs1 = (if starts then addrs @ [length s] else addrs)"
  define message1 where "message1 = (if starts then Some (length s) else message)"
  define pmessage1 where "pmessage1 = (if starts then Some (length addrs) else pmessage)"
  define s1 where "s1 = (if starts then s @ [Map.empty] else s)"
  have d1: "distinct addrs1" using Cons.prems(1,2) by (auto simp: addrs1_def)
  have v1: "\<forall>a\<in>set addrs1. a < length s1"
    using Cons.prems(2) by (auto simp: addrs1_def s1_def less_Suc_eq)
  have p1: "map (\<lambda>a. s1 ! a) addrs1 =
      (if starts then map (\<lambda>a. s ! a) addrs @ [Map.empty] else map (\<lambda>a. s ! a) addrs)"
    using Cons.prems(2) by (auto simp: addrs1_def s1_def nth_append)
  have r1: "(message1 = None \<and> pmessage1 = None) \<or>
      (addrs1 \<noteq> [] \<and> message1 = Some (last addrs1) \<and> pmessage1 = Some (length addrs1 - 1))"
    using Cons.prems(3) by (auto simp: addrs1_def message1_def pmessage1_def)
  have l1: "length s \<le> length s1" by (simp add: s1_def)
  have f1: "\<forall>a < length s. s1 ! a = s ! a" by (simp add: s1_def nth_append)
  have sub: "set addrs \<subseteq> set addrs1" by (auto simp: addrs1_def)
  have new: "\<forall>a < length s. a \<notin> set addrs \<longrightarrow> a \<notin> set addrs1" by (auto simp: addrs1_def)
  have stepS: "listLoopS this d addrs message (line # ls) s =
      (case message1 of
         None \<Rightarrow> listLoopS this d addrs1 message1 ls s1
       | Some m \<Rightarrow>
           (case parseMessageLine this' line of
              Inl e \<Rightarrow> (Inl e, s1 @ [Map.empty])
            | Inr m' \<Rightarrow>
                listLoopS this d addrs1 message1 ls (objectAssign m (length s1) (s1 @ [m']))))"
    by (simp add: Let_def newObject_def starts_def addrs1_def message1_def s1_def
        parseMessageLineS_eq [of this line _ this'] split: option.splits sum.splits)
  have stepP: "listLoop this' d (map (\<lambda>a. s ! a) addrs) pmessage (line # ls) =
      (case pmessage1 of
         None \<Rightarrow> listLoop this' d (map (\<lambda>a. s1 ! a) addrs1) pmessage1 ls
       | Some i \<Rightarrow>
           (case parseMessageLine this' line of
              Inl e \<Rightarrow> Inl e
            | Inr m' \<Rightarrow>
                listLoop this' d
                  ((map (\<lambda>a. s1 ! a) addrs1)[i := (map (\<lambda>a. s1 ! a) addrs1) ! i ++ m'])
                  pmessage1 ls))"
    by (simp add: p1 Let_def starts_def pmessage1_def split: option.splits sum.splits)
  show ?case
  proof (cases message1)
    case None
    then have pn: "pmessage1 = None" using r1 by auto
    have ih: "listValue (listLoopS this d addrs1 message1 ls s1) =
           listLoop this' d (map (\<lambda>a. s1 ! a) addrs1) pmessage1 ls \<and>
         length s1 \<le> length (snd (listLoopS this d addrs1 message1 ls s1)) \<and>
         (\<forall>a < length s1. a \<notin> set addrs1 \<longrightarrow> snd (listLoopS this d addrs1 message1 ls s1) ! a = s1 ! a) \<and>
         (\<forall>as. fst (listLoopS this d addrs1 message1 ls s1) = Inr as \<longrightarrow>
            (\<forall>a\<in>set as. a < length (snd (listLoopS this d addrs1 message1 ls s1))))"
      by (rule Cons.IH [OF d1 v1 r1])
    have eqS: "listLoopS this d addrs message (line # ls) s = listLoopS this d addrs1 message1 ls s1"
      by (simp only: stepS None option.case)
    have eqP: "listLoop this' d (map (\<lambda>a. s ! a) addrs) pmessage (line # ls) =
        listLoop this' d (map (\<lambda>a. s1 ! a) addrs1) pmessage1 ls"
      by (simp only: stepP pn option.case)
    show ?thesis
      unfolding eqS eqP using ih l1 f1 new by (auto simp: less_le_trans)
  next
    case (Some m)
    then have m: "addrs1 \<noteq> []" "m = last addrs1" "pmessage1 = Some (length addrs1 - 1)"
      using r1 by auto
    have mv: "m \<in> set addrs1" "m < length s1" using m v1 by auto
    show ?thesis
    proof (cases "parseMessageLine this' line")
      case (Inl e)
      have eqS: "listLoopS this d addrs message (line # ls) s = (Inl e, s1 @ [Map.empty])"
        by (simp only: stepS Some option.case Inl sum.case)
      have eqP: "listLoop this' d (map (\<lambda>a. s ! a) addrs) pmessage (line # ls) = Inl e"
        by (simp only: stepP m(3) option.case Inl sum.case)
      show ?thesis
        unfolding eqS eqP using l1 f1 by (simp add: listValue_def nth_append)
    next
      case (Inr m')
      let ?s3 = "objectAssign m (length s1) (s1 @ [m'])"
      have s3: "?s3 = (s1[m := s1 ! m ++ m']) @ [m']"
        using mv by (simp add: objectAssign_def nth_append list_update_append)
      have l3: "length ?s3 = Suc (length s1)" by (simp add: s3)
      have v3: "\<forall>a\<in>set addrs1. a < length ?s3" using v1 l3 by auto
      have p3: "map (\<lambda>a. ?s3 ! a) addrs1 =
          (map (\<lambda>a. s1 ! a) addrs1)[length addrs1 - 1 := s1 ! m ++ m']"
      proof -
        have "?s3 = (s1[last addrs1 := s1 ! m ++ m']) @ [m']" using s3 m(2) by simp
        then show ?thesis
          using map_nth_update_last [OF d1 m(1) v1, of "s1 ! m ++ m'" "[m']"] by simp
      qed
      have at: "(map (\<lambda>a. s1 ! a) addrs1) ! (length addrs1 - 1) = s1 ! m"
        using m by (simp add: last_conv_nth)
      have f3: "\<forall>a < length s1. a \<noteq> m \<longrightarrow> ?s3 ! a = s1 ! a"
        by (simp add: s3 nth_append)
      have ih: "listValue (listLoopS this d addrs1 message1 ls ?s3) =
           listLoop this' d (map (\<lambda>a. ?s3 ! a) addrs1) pmessage1 ls \<and>
         length ?s3 \<le> length (snd (listLoopS this d addrs1 message1 ls ?s3)) \<and>
         (\<forall>a < length ?s3. a \<notin> set addrs1 \<longrightarrow> snd (listLoopS this d addrs1 message1 ls ?s3) ! a = ?s3 ! a) \<and>
         (\<forall>as. fst (listLoopS this d addrs1 message1 ls ?s3) = Inr as \<longrightarrow>
            (\<forall>a\<in>set as. a < length (snd (listLoopS this d addrs1 message1 ls ?s3))))"
        by (rule Cons.IH [OF d1 v3 r1])
      have eqS: "listLoopS this d addrs message (line # ls) s =
          listLoopS this d addrs1 message1 ls ?s3"
        by (simp only: stepS Some option.case Inr sum.case)
      have eqP: "listLoop this' d (map (\<lambda>a. s ! a) addrs) pmessage (line # ls) =
          listLoop this' d (map (\<lambda>a. ?s3 ! a) addrs1) pmessage1 ls"
        by (simp only: stepP m(3) option.case Inr sum.case at p3 [symmetric])
      have frame: "\<forall>a < length s. a \<notin> set addrs \<longrightarrow>
          snd (listLoopS this d addrs1 message1 ls ?s3) ! a = s ! a"
      proof (intro allI impI)
        fix a assume a: "a < length s" "a \<notin> set addrs"
        then have n: "a \<notin> set addrs1" using new by simp
        have "a < length ?s3" using a(1) l1 l3 by simp
        then have "snd (listLoopS this d addrs1 message1 ls ?s3) ! a = ?s3 ! a"
          using ih n by simp
        also have "\<dots> = s1 ! a"
        proof -
          have "a \<noteq> m" using n mv(1) by blast
          moreover have "a < length s1" using a(1) l1 by simp
          ultimately show ?thesis using f3 by blast
        qed
        also have "\<dots> = s ! a" using f1 a(1) by simp
        finally show "snd (listLoopS this d addrs1 message1 ls ?s3) ! a = s ! a" .
      qed
      show ?thesis
        unfolding eqS eqP using ih frame l1 l3 by simp
    qed
  qed
qed

lemma parseMessageListS_sim:
  "listValue (parseMessageListS this ls s) = parseMessageList this' ls \<and>
   take (length s) (snd (parseMessageListS this ls s)) = s \<and>
   (\<forall>as. fst (parseMessageListS this ls s) = Inr as \<longrightarrow>
      (\<forall>a\<in>set as. a < length (snd (parseMessageListS this ls s))))"
proof (cases ls)
  case Nil
  then show ?thesis by (simp add: parseMessageListS_def parseMessageList_def listValue_def)
next
  case (Cons first rest)
  define d where "d = substring first 0 (indexOf first CHR '':'' + 1)"
  have run: "parseMessageListS this ls s = listLoopS this d [] None ls s"
    unfolding parseMessageListS_def Cons list.case Let_def d_def by (rule refl)
  have pure: "parseMessageList this' ls = listLoop this' d [] None ls"
    unfolding parseMessageList_def Cons list.case Let_def d_def by (rule refl)
  have sim: "listValue (listLoopS this d [] None ls s) =
           listLoop this' d (map (\<lambda>a. s ! a) []) None ls \<and>
         length s \<le> length (snd (listLoopS this d [] None ls s)) \<and>
         (\<forall>a < length s. a \<notin> set [] \<longrightarrow> snd (listLoopS this d [] None ls s) ! a = s ! a) \<and>
         (\<forall>as. fst (listLoopS this d [] None ls s) = Inr as \<longrightarrow>
            (\<forall>a\<in>set as. a < length (snd (listLoopS this d [] None ls s))))"
    by (rule listLoopS_sim) simp_all
  have "take (length s) (snd (listLoopS this d [] None ls s)) = s"
    by (rule take_frame) (use sim in simp_all)
  then show ?thesis using sim by (simp add: run pure)
qed


lemma objectLoopS_fst: "fst (objectLoopS this result ls s) = Inr a \<Longrightarrow> a = result"
  by (induction ls arbitrary: s) (auto split: prod.splits sum.splits)

lemma parseMessageObjectS_valid:
  "fst (parseMessageObjectS this ls s) = Inr a \<Longrightarrow> a < length (snd (parseMessageObjectS this ls s))"
proof -
  assume r: "fst (parseMessageObjectS this ls s) = Inr a"
  have run: "parseMessageObjectS this ls s = objectLoopS this (length s) ls (s @ [Map.empty])"
    by (simp add: parseMessageObjectS_def newObject_def)
  have "a = length s" using r objectLoopS_fst [of this "length s" ls "s @ [Map.empty]" a]
    by (simp add: run)
  moreover have "length (s @ [Map.empty]) \<le> length (snd (objectLoopS this (length s) ls (s @ [Map.empty])))"
    using objectLoopS_sim [of "length s" "s @ [Map.empty]" this ls this] by simp
  ultimately show ?thesis by (simp add: run)
qed

section \<open>The claims\<close>

text \<open>
  C1. A response without data lines. In object mode the result is the empty record:
  \<^verbatim>\<open>getStatus\<close> on the response \<open>OK\<close> returns it. In list mode the call does not return
  an empty sequence: \<^verbatim>\<open>parseMessageList\<close> reads the first element of the empty array and
  raises a \<^verbatim>\<open>TypeError\<close>, so \<^verbatim>\<open>getPlaylist\<close> and the verb \<open>lsinfo\<close> fail on the response
  \<open>OK\<close>.
\<close>

theorem empty_response:
  "parseMessageObject this [] = Inr Map.empty \<and>
   fst (getStatus exampleClient (freshNetwork [''OK''])) = Inr (Object Map.empty) \<and>
   parseMessageList this [] = Inl TypeError \<and>
   fst (getPlaylist exampleClient (freshNetwork [''OK''])) = Inl TypeError \<and>
   fst (sendCommand exampleClient ''lsinfo'' (Some (ArgStr ''rock'')) (freshNetwork [''OK''])) =
     Inl TypeError"
  by (simp add: parseMessageList_def parseMessageObject_def getPlaylist_def getStatus_def
      sendCommand_def getConnection_def freshNetwork_def END_def)

text \<open>
  C2. The comparator of \<^verbatim>\<open>getLibrary\<close> answers \<open>-1\<close> for a directory against a file, but
  for a file against a directory it compares the names, and answers \<open>-1\<close> as well when
  the name of the file is the smaller one. The sort then puts the file in front of the
  directory: the listing of the directory \<open>Zappa\<close> and the file \<open>abba.mp3\<close> comes out
  with the file first.
\<close>

theorem file_sorted_before_directory:
  "libraryCompare collate [''file'' \<mapsto> Str ''Zappa'', ''isDir'' \<mapsto> Num (Fin 1)]
       [''file'' \<mapsto> Str ''abba.mp3''] = Inr (- 1) \<and>
   libraryCompare collate [''file'' \<mapsto> Str ''abba.mp3'']
       [''file'' \<mapsto> Str ''Zappa'', ''isDir'' \<mapsto> Num (Fin 1)] = Inr (- 1) \<and>
   arraySort (libraryCompare collate)
       [[''file'' \<mapsto> Str ''Zappa'', ''isDir'' \<mapsto> Num (Fin 1)], [''file'' \<mapsto> Str ''abba.mp3'']] =
     Inr [[''file'' \<mapsto> Str ''abba.mp3''],
          [''file'' \<mapsto> Str ''Zappa'', ''isDir'' \<mapsto> Num (Fin 1)]] \<and>
   fst (getLibrary collate exampleClient ''rock''
          (freshNetwork [''file: intro.mp3'', ''directory: Zappa'', ''file: abba.mp3'', ''OK''])) =
     Inr [[''file'' \<mapsto> Str ''abba.mp3''],
          [''file'' \<mapsto> Str ''Zappa'', ''isDir'' \<mapsto> Num (Fin 1)]]"
proof -
  have d: "substring ''file: intro.mp3'' 0 5 = ''file:''" by code_simp
  have pi: "parseMessageLine this ''file: intro.mp3'' = Inr [''file'' \<mapsto> Str ''intro.mp3'']"
    for this
    by (simp add: parseMessageLine_def split_intro lower_file)
  have pd: "parseMessageLine this ''directory: Zappa'' =
      Inr [''file'' \<mapsto> Str ''Zappa'', ''isDir'' \<mapsto> Num (Fin 1)]" for this
    by (simp add: parseMessageLine_def split_Zappa)
  have pf: "parseMessageLine this ''file: abba.mp3'' = Inr [''file'' \<mapsto> Str ''abba.mp3'']"
    for this
    by (simp add: parseMessageLine_def split_abba lower_file)
  have r: "readLines [] [''file: intro.mp3'', ''directory: Zappa'', ''file: abba.mp3'', ''OK''] =
      (Inr [''file: intro.mp3'', ''directory: Zappa'', ''file: abba.mp3''], [])"
    by (simp add: END_def VERSION_def ERROR_def startsWith_def)
  have l: "parseMessageList this [''file: intro.mp3'', ''directory: Zappa'', ''file: abba.mp3''] =
      Inr [[''file'' \<mapsto> Str ''Zappa'', ''isDir'' \<mapsto> Num (Fin 1)],
           [''file'' \<mapsto> Str ''abba.mp3'']]" for this
    by (simp add: parseMessageList_def d pi pd pf startsWith_def Let_def)
  have c1: "libraryCompare collate [''file'' \<mapsto> Str ''Zappa'', ''isDir'' \<mapsto> Num (Fin 1)]
       [''file'' \<mapsto> Str ''abba.mp3''] = Inr (- 1)"
    by (simp add: libraryCompare_def)
  have c2: "libraryCompare collate [''file'' \<mapsto> Str ''abba.mp3'']
       [''file'' \<mapsto> Str ''Zappa'', ''isDir'' \<mapsto> Num (Fin 1)] = Inr (- 1)"
    by (simp add: libraryCompare_def compare_abba_Zappa)
  have s: "arraySort (libraryCompare collate)
       [[''file'' \<mapsto> Str ''Zappa'', ''isDir'' \<mapsto> Num (Fin 1)], [''file'' \<mapsto> Str ''abba.mp3'']] =
     Inr [[''file'' \<mapsto> Str ''abba.mp3''],
          [''file'' \<mapsto> Str ''Zappa'', ''isDir'' \<mapsto> Num (Fin 1)]]"
    by (simp add: arraySort_two c2)
  have g: "fst (getLibrary collate exampleClient ''rock''
          (freshNetwork [''file: intro.mp3'', ''directory: Zappa'', ''file: abba.mp3'', ''OK''])) =
     Inr [[''file'' \<mapsto> Str ''abba.mp3''],
          [''file'' \<mapsto> Str ''Zappa'', ''isDir'' \<mapsto> Num (Fin 1)]]"
  proof -
    let ?net = "freshNetwork [''file: intro.mp3'', ''directory: Zappa'', ''file: abba.mp3'', ''OK'']"
    have "fst (sendCommand exampleClient ''lsinfo'' (Some (ArgStr ''rock'')) ?net) =
        Inr (List [[''file'' \<mapsto> Str ''Zappa'', ''isDir'' \<mapsto> Num (Fin 1)],
                   [''file'' \<mapsto> Str ''abba.mp3'']])"
      using sendCommand_result [of ?net exampleClient _ "[]" "''lsinfo''" "Some (ArgStr ''rock'')"] r
      by (simp add: freshNetwork_def l)
    then obtain net1 where "sendCommand exampleClient ''lsinfo'' (Some (ArgStr ''rock'')) ?net =
        (Inr (List [[''file'' \<mapsto> Str ''Zappa'', ''isDir'' \<mapsto> Num (Fin 1)],
                   [''file'' \<mapsto> Str ''abba.mp3'']]), net1)"
      by (cases "sendCommand exampleClient ''lsinfo'' (Some (ArgStr ''rock'')) ?net") simp
    then show ?thesis by (simp add: getLibrary_def s)
  qed
  from c1 c2 s g show ?thesis by simp
qed

text \<open>
  C3. The line parser cuts the line at every colon followed by white space and keeps
  the first two pieces, so a value that itself holds such a separator loses everything
  from its second occurrence on: the line \<open>Title: Star Wars: A New Hope\<close> yields the
  field \<open>title\<close> with the value \<open>Star Wars\<close>.
\<close>

theorem value_cut_at_second_separator:
  "parseMessageLine this ''Title: Star Wars: A New Hope'' = Inr [''title'' \<mapsto> Str ''Star Wars'']"
  by (simp add: parseMessageLine_def split_Title lower_Title)

text \<open>
  C4. A line without a separator is not skipped. The statement
  \<^verbatim>\<open>if (!messageLine) result;\<close> returns nothing, so the empty line is split like any other
  line and adds the field with the empty name and the value \<open>undefined\<close> to the record:
  \<^verbatim>\<open>getStatus\<close> on the lines \<open>volume: 42\<close> and the empty line returns a record of two
  fields. The line \<open>Genre\<close> yields the field \<open>genre\<close> with the value \<open>undefined\<close>. On the
  line \<open>time\<close> the parser calls \<^verbatim>\<open>split\<close> on \<open>undefined\<close>, and the call of \<^verbatim>\<open>getStatus\<close>
  fails with a \<^verbatim>\<open>TypeError\<close>.
\<close>

theorem unseparated_line_not_skipped:
  "\<not> hasSeparator '''' \<and>
   parseMessageLine this '''' = Inr ['''' \<mapsto> Undefined] \<and>
   fst (getStatus exampleClient (freshNetwork [''volume: 42'', '''', ''OK''])) =
     Inr (Object [''volume'' \<mapsto> Num (Fin 42), '''' \<mapsto> Undefined]) \<and>
   \<not> hasSeparator ''Genre'' \<and>
   parseMessageLine this ''Genre'' = Inr [''genre'' \<mapsto> Undefined] \<and>
   \<not> hasSeparator ''time'' \<and>
   fst (getStatus exampleClient (freshNetwork [''volume: 42'', ''time'', ''OK''])) = Inl TypeError"
proof -
  have v: "parseMessageLine t ''volume: 42'' = Inr [''volume'' \<mapsto> Num (Fin 42)]" for t
    by (simp add: parseMessageLine_def split_volume lower_volume parseInt_42)
  have e: "parseMessageLine t '''' = Inr ['''' \<mapsto> Undefined]" for t
    by (simp add: parseMessageLine_def splitColonSpace_def toLowerCase_def)
  have g: "parseMessageLine t ''Genre'' = Inr [''genre'' \<mapsto> Undefined]" for t
    by (simp add: parseMessageLine_def split_Genre lower_Genre)
  have t: "parseMessageLine t ''time'' = Inl TypeError" for t
    by (simp add: parseMessageLine_def split_time)
  have r1: "readLines [] [''volume: 42'', '''', ''OK''] = (Inr [''volume: 42'', ''''], [])"
    by (simp add: END_def VERSION_def ERROR_def startsWith_def)
  have r2: "readLines [] [''volume: 42'', ''time'', ''OK''] = (Inr [''volume: 42'', ''time''], [])"
    by (simp add: END_def VERSION_def ERROR_def startsWith_def)
  have s1: "fst (getStatus exampleClient (freshNetwork [''volume: 42'', '''', ''OK''])) =
     Inr (Object [''volume'' \<mapsto> Num (Fin 42), '''' \<mapsto> Undefined])"
    using sendCommand_result [of "freshNetwork [''volume: 42'', '''', ''OK'']" exampleClient
        _ "[]" "''status''" None] r1
    by (simp add: getStatus_def freshNetwork_def parseMessageObject_def v e)
  have s2: "fst (getStatus exampleClient (freshNetwork [''volume: 42'', ''time'', ''OK''])) =
     Inl TypeError"
    using sendCommand_result [of "freshNetwork [''volume: 42'', ''time'', ''OK'']" exampleClient
        _ "[]" "''status''" None] r2
    by (simp add: getStatus_def freshNetwork_def parseMessageObject_def v t)
  from e g s1 s2 show ?thesis by simp
qed


text \<open>
  C5. A verb without an argument is written as the verb and a line feed, and a verb
  with the argument \<open>1\<close> as the verb, a space, the argument in double quotes and a line
  feed, each in one write. The argument \<open>0\<close> is not written: \<^verbatim>\<open>setSingle(0)\<close> writes
  the bare verb \<open>single\<close>.
\<close>

theorem zero_argument_dropped:
  "written (snd (play exampleClient (freshNetwork [''OK'']))) = [''play'' @ [CHR 0x0A]] \<and>
   written (snd (setSingle exampleClient 1 (freshNetwork [''OK'']))) =
     [''single '' @ [CHR 0x22] @ ''1'' @ [CHR 0x22, CHR 0x0A]] \<and>
   written (snd (setSingle exampleClient 0 (freshNetwork [''OK'']))) = [''single'' @ [CHR 0x0A]]"
  by (simp add: setSingle_def play_def discard_def sendCommand_written freshNetwork_def
      commandLine_def showInt_def)


text \<open>
  C6. When the response holds a line that begins with \<open>ACK\<close>, and no line before it is
  the terminator or begins with \<open>ACK\<close>, the call fails with the error whose message is
  that line without its first four characters (the marker and the separator); the lines
  behind it stay unread, and the data lines read before it yield no result.
\<close>

theorem ack_line_fails_call:
  assumes "accepts net (hostname this, port this)"
    and "incoming net = pre @ line # rest"
    and "\<forall>l \<in> set pre. l \<noteq> END \<and> \<not> startsWith l ERROR"
    and "startsWith line ERROR"
  shows "sendCommand this command argument net =
           (Inl (Error (drop (length ERROR + 1) line)),
            net\<lparr>opened := opened net @ [(hostname this, port this)],
                written := written net @ [commandLine command argument @ [CHR 0x0A]],
                incoming := rest\<rparr>)"
  using assms(1,2) readLines_error [OF assms(3,4), of "[]" rest]
  by (simp add: sendCommand_def getConnection_def Let_def)

theorem ack_line_fails_call_witness:
  "accepts (freshNetwork [''volume: 42'', ''ACK some error'', ''repeat: 1'', ''OK''])
     (hostname exampleClient, port exampleClient) \<and>
   incoming (freshNetwork [''volume: 42'', ''ACK some error'', ''repeat: 1'', ''OK'']) =
     [''volume: 42''] @ ''ACK some error'' # [''repeat: 1'', ''OK''] \<and>
   ''volume: 42'' \<noteq> END \<and> \<not> startsWith ''volume: 42'' ERROR \<and>
   startsWith ''ACK some error'' ERROR \<and>
   sendCommand exampleClient ''status'' None
       (freshNetwork [''volume: 42'', ''ACK some error'', ''repeat: 1'', ''OK'']) =
     (Inl (Error ''some error''),
      \<lparr>accepts = (\<lambda>target. True), opened = [(''10.0.0.2'', 6600)],
       written = [''status'' @ [CHR 0x0A]], incoming = [''repeat: 1'', ''OK'']\<rparr>)"
  using ack_line_fails_call [of "freshNetwork [''volume: 42'', ''ACK some error'', ''repeat: 1'', ''OK'']"
      exampleClient "[''volume: 42'']" "''ACK some error''" "[''repeat: 1'', ''OK'']" "''status''" None]
  by (simp add: freshNetwork_def exampleClient_def newMpdClient_def startsWith_def END_def
      ERROR_def commandLine_def)

text \<open>
  C7. For the data lines \<open>file: a.mp3\<close>, \<open>Time: 10\<close>, \<open>file: b.mp3\<close>, \<open>Time: 20\<close> the
  delimiter is \<open>file:\<close>, the raw key of the first line with its colon; the first and the
  third line begin with it and start a record each; and list mode yields exactly the
  two records of the files \<open>a.mp3\<close> and \<open>b.mp3\<close> with the durations 10 and 20.
\<close>

theorem list_mode_example:
  "substring ''file: a.mp3'' 0 (indexOf ''file: a.mp3'' CHR '':'' + 1) = ''file:'' \<and>
   map (\<lambda>line. startsWith line ''file:'')
       [''file: a.mp3'', ''Time: 10'', ''file: b.mp3'', ''Time: 20''] =
     [True, False, True, False] \<and>
   parseMessageList this [''file: a.mp3'', ''Time: 10'', ''file: b.mp3'', ''Time: 20''] =
     Inr [[''file'' \<mapsto> Str ''a.mp3'', ''duration'' \<mapsto> Num (Fin 10)],
          [''file'' \<mapsto> Str ''b.mp3'', ''duration'' \<mapsto> Num (Fin 20)]]"
proof -
  have d: "substring ''file: a.mp3'' 0 5 = ''file:''" by code_simp
  have a: "parseMessageLine this ''file: a.mp3'' = Inr [''file'' \<mapsto> Str ''a.mp3'']"
    by (simp add: parseMessageLine_def split_file_a lower_file)
  have b: "parseMessageLine this ''file: b.mp3'' = Inr [''file'' \<mapsto> Str ''b.mp3'']"
    by (simp add: parseMessageLine_def split_file_b lower_file)
  have t10: "parseMessageLine this ''Time: 10'' = Inr [''duration'' \<mapsto> Num (Fin 10)]"
    by (simp add: parseMessageLine_def split_Time_10 parseFloat_10)
  have t20: "parseMessageLine this ''Time: 20'' = Inr [''duration'' \<mapsto> Num (Fin 20)]"
    by (simp add: parseMessageLine_def split_Time_20 parseFloat_20)
  show ?thesis
    by (simp add: parseMessageList_def d a b t10 t20 startsWith_def Let_def)
qed

text \<open>
  C8. For every path that contains the character \<open>+\<close>, \<^verbatim>\<open>addSong\<close> fails with the
  validation error and leaves the network as it was: no connection is opened, nothing
  is written and nothing is read.
\<close>

theorem addSong_plus_rejected:
  assumes "CHR ''+'' \<in> set path"
  shows "addSong this path net = (Inl (Error plusMessage), net)"
  using assms by (simp add: addSong_def indexOf_nonneg_iff)

theorem addSong_plus_rejected_witness:
  "CHR ''+'' \<in> set ''a+b.mp3'' \<and>
   addSong exampleClient ''a+b.mp3'' (freshNetwork [''OK'']) =
     (Inl (Error plusMessage), freshNetwork [''OK''])"
  using addSong_plus_rejected [of "''a+b.mp3''" exampleClient "freshNetwork [''OK'']"] by simp

text \<open>
  C9. Parsing carries no state from one call to the next. With the records of the
  program in a store, the output of a parse in object mode and in list mode, read
  behind the addresses it returns, is the same for every store in which the parse
  starts and for every client object; the parse leaves every record that existed before
  it unchanged; and when the same lines are parsed a second time, in the store that the
  first parse has left, the output is the same again and the output of the first parse
  is still what it was.
\<close>

theorem parsing_has_no_hidden_state:
  "objectValue (parseMessageObjectS this ls s) = objectValue (parseMessageObjectS this' ls s') \<and>
   listValue (parseMessageListS this ls s) = listValue (parseMessageListS this' ls s') \<and>
   take (length s) (snd (parseMessageObjectS this ls s)) = s \<and>
   take (length s) (snd (parseMessageListS this ls s)) = s \<and>
   (let r1 = parseMessageObjectS this ls s; r2 = parseMessageObjectS this ls (snd r1)
    in objectValue r2 = objectValue r1 \<and> objectValue (fst r1, snd r2) = objectValue r1) \<and>
   (let r1 = parseMessageListS this ls s; r2 = parseMessageListS this ls (snd r1)
    in listValue r2 = listValue r1 \<and> listValue (fst r1, snd r2) = listValue r1)"
proof -
  have obj: "objectValue (parseMessageObjectS t ls u) = parseMessageObject this ls" for t u
    using parseMessageObjectS_sim [of t ls u this] by simp
  have lst: "listValue (parseMessageListS t ls u) = parseMessageList this ls" for t u
    using parseMessageListS_sim [of t ls u this] by simp
  have fo: "take (length u) (snd (parseMessageObjectS t ls u)) = u" for t u
    using parseMessageObjectS_sim [of t ls u this] by simp
  have fl: "take (length u) (snd (parseMessageListS t ls u)) = u" for t u
    using parseMessageListS_sim [of t ls u this] by simp
  define o1 where "o1 = parseMessageObjectS this ls s"
  define o2 where "o2 = parseMessageObjectS this ls (snd o1)"
  define l1 where "l1 = parseMessageListS this ls s"
  define l2 where "l2 = parseMessageListS this ls (snd l1)"
  have keep_o: "objectValue (fst o1, snd o2) = objectValue o1"
  proof (cases "fst o1")
    case (Inl e)
    then show ?thesis by (simp add: objectValue_def)
  next
    case (Inr a)
    then have "a < length (snd o1)"
      using parseMessageObjectS_valid [of this ls s a] by (simp add: o1_def)
    moreover have "take (length (snd o1)) (snd o2) = snd o1" unfolding o2_def by (rule fo)
    ultimately have "snd o2 ! a = snd o1 ! a" by (metis nth_take)
    then show ?thesis using Inr by (simp add: objectValue_def)
  qed
  have keep_l: "listValue (fst l1, snd l2) = listValue l1"
  proof (cases "fst l1")
    case (Inl e)
    then show ?thesis by (simp add: listValue_def)
  next
    case (Inr as)
    then have v: "\<forall>a\<in>set as. a < length (snd l1)"
      using parseMessageListS_sim [of this ls s this] by (simp add: l1_def)
    have t: "take (length (snd l1)) (snd l2) = snd l1" unfolding l2_def by (rule fl)
    have "\<forall>a\<in>set as. snd l2 ! a = snd l1 ! a"
    proof
      fix a assume "a \<in> set as"
      then have "a < length (snd l1)" using v by simp
      then show "snd l2 ! a = snd l1 ! a" using t by (metis nth_take)
    qed
    then show ?thesis using Inr by (simp add: listValue_def)
  qed
  have "objectValue o2 = objectValue o1" by (simp add: o1_def o2_def obj)
  moreover have "listValue l2 = listValue l1" by (simp add: l1_def l2_def lst)
  ultimately show ?thesis
    using keep_o keep_l by (simp add: obj lst fo fl Let_def o1_def o2_def l1_def l2_def)
qed

text \<open>
  C10. When the argument handed to \<^verbatim>\<open>sendCommand\<close> is the number \<open>0\<close> or the empty
  string, the command line is the bare verb, and the verb followed by a line feed is
  what is written: \<^verbatim>\<open>setRepeat(0)\<close> writes \<open>repeat\<close> and a line feed.
\<close>

theorem falsy_argument_sends_bare_verb:
  assumes "argument = ArgNum 0 \<or> argument = ArgStr []"
    and "accepts net (hostname this, port this)"
  shows "commandLine command (Some argument) = command \<and>
         written (snd (sendCommand this command (Some argument) net)) =
           written net @ [command @ [CHR 0x0A]]"
  using assms sendCommand_written [of net this command "Some argument"]
  by (auto simp: commandLine_def)

theorem falsy_argument_sends_bare_verb_witness:
  "(ArgNum 0 = ArgNum 0 \<or> ArgNum 0 = ArgStr []) \<and>
   accepts (freshNetwork [''OK'']) (hostname exampleClient, port exampleClient) \<and>
   written (snd (setRepeat exampleClient 0 (freshNetwork [''OK'']))) = [''repeat'' @ [CHR 0x0A]]"
  using falsy_argument_sends_bare_verb [of "ArgNum 0" "freshNetwork [''OK'']" exampleClient "''repeat''"]
  by (simp add: setRepeat_def discard_def freshNetwork_def)

end
